theory Spec2Isabelle
  imports Complex_Main "HOL-Library.AList"
begin

section \<open>The plugin command bridge (src/services/plugin-bridge/server.ts)\<close>

text \<open>
  A shallow embedding of the class \<open>PluginBridge\<close>: its fields, its methods
  \<open>start\<close>, \<open>stop\<close>, \<open>handleConnection\<close>, \<open>handleResponse\<close>, \<open>isConnected\<close>
  and \<open>sendCommand\<close>, the callbacks it registers (the socket's message, close and
  error handlers, the timer callback of \<open>sendCommand\<close>), and the part of the
  runtime those touch: the sockets' ready states, the armed timers, the promise
  continuations that have been invoked, the frames handed to \<open>ws.send\<close>, the
  calls made on the module's logger.

  JavaScript runs every handler to completion on one thread, so a handler is a
  function from the state before it to the state after it, and an execution is
  a list of events.
\<close>

subsection \<open>JavaScript values\<close>

text \<open>
  What \<open>JSON.parse\<close> returns. The bridge casts it to \<open>PluginResponse\<close> without a
  check, so every JSON value is a possible response. An object is the list of
  its own properties (read with \<open>map_of\<close>); \<open>undefined\<close> is \<open>None\<close> of
  \<open>json option\<close>. Of a number the bridge only observes whether it is zero.
\<close>

datatype json =
    JNull
  | JBool bool
  | JNum real
  | JStr string
  | JArr "json list"
  | JObj "(string \<times> json) list"

text \<open>The errors the bridge constructs, throws or catches. \<open>Error v\<close> is what
  \<open>new Error(v)\<close> returns, for a \<open>v\<close> that can be converted to a string: its
  message is \<open>String(v)\<close>, which is \<open>s\<close> for \<open>v = JStr s\<close>.
  \<open>FigmadError name message code\<close> is an instance of \<open>FigmadError\<close> or of a
  subclass (the subclass sets \<open>name\<close>); \<open>statusCode\<close> and \<open>details\<close> are
  \<open>undefined\<close> in every error of the bridge.\<close>

datatype js_error =
    Error json
  | TypeError
  | SyntaxError
  | FigmadError string string string

fun error_message :: "js_error \<Rightarrow> string option" where
  "error_message (Error (JStr s)) = Some s"
| "error_message (FigmadError n m c) = Some m"
| "error_message e = None"

text \<open>\<open>if (v)\<close>, \<open>v && w\<close>, \<open>v || w\<close> and \<open>!v\<close> test a value for truthiness.
  \<open>JSON.parse\<close> never yields \<open>NaN\<close>.\<close>

fun truthy :: "json option \<Rightarrow> bool" where
  "truthy None = False"
| "truthy (Some JNull) = False"
| "truthy (Some (JBool b)) = b"
| "truthy (Some (JNum n)) = (n \<noteq> 0)"
| "truthy (Some (JStr s)) = (s \<noteq> [])"
| "truthy (Some (JArr xs)) = True"
| "truthy (Some (JObj kvs)) = True"

text \<open>\<open>v.k\<close> for the four property names the bridge reads (\<open>id\<close>, \<open>success\<close>,
  \<open>result\<close>, \<open>error\<close>): reading a property of \<open>null\<close> throws a TypeError; a
  boolean, a number, a string and an array have no property of these names.\<close>

fun get_prop :: "json \<Rightarrow> string \<Rightarrow> js_error + json option" where
  "get_prop JNull k = Inl TypeError"
| "get_prop (JObj kvs) k = Inr (map_of kvs k)"
| "get_prop v k = Inr None"

text \<open>A read of a property of a value of which a property was read before:
  it does not throw.\<close>

definition read_prop :: "json \<Rightarrow> string \<Rightarrow> json option" where
  "read_prop v k = (case get_prop v k of Inl e \<Rightarrow> None | Inr x \<Rightarrow> x)"

text \<open>\<open>v || d\<close> for a defined \<open>d\<close>.\<close>

definition js_or :: "json option \<Rightarrow> json \<Rightarrow> json" where
  "js_or v d = (if truthy v then the v else d)"

text \<open>
  \<open>ToString(v)\<close>, which \<open>new Error(v)\<close> and a template literal apply to \<open>v\<close>, throws
  a TypeError where \<open>v\<close> has no primitive value. No parsed value is callable and
  \<open>Object.prototype.valueOf\<close> returns the object itself, so the conversion of an
  object throws exactly when the object has an own property \<open>toString\<close> (else
  \<open>Object.prototype.toString\<close> answers); \<open>Array.prototype.toString\<close> joins the
  converted elements (\<open>null\<close> gives the empty string), so the conversion of an
  array throws when that of an element does. \<open>undefined\<close> converts to
  \<open>'undefined'\<close>. \<open>can_ToString\<close> tells whether the conversion returns.
\<close>

fun can_ToString :: "json \<Rightarrow> bool" where
  "can_ToString (JObj kvs) = (''toString'' \<notin> set (map fst kvs))"
| "can_ToString (JArr xs) = (\<forall>x \<in> set xs. can_ToString x)"
| "can_ToString v = True"

fun can_ToString_value :: "json option \<Rightarrow> bool" where
  "can_ToString_value None = True"
| "can_ToString_value (Some v) = can_ToString v"

text \<open>\<open>String(n)\<close> and \<open>`${n}`\<close> for a natural number below \<open>10^21\<close>: its decimal
  digits (\<open>digit_char\<close> is only applied to a digit).\<close>

definition digit_char :: "nat \<Rightarrow> char" where
  "digit_char d = ''0123456789'' ! d"

fun Number_toString :: "nat \<Rightarrow> string" where
  "Number_toString n =
     (if n < 10 then [digit_char n]
      else Number_toString (n div 10) @ [digit_char (n mod 10)])"

subsection \<open>lib: logger, errors, generateId\<close>

datatype LogLevel = LDebug | LInfo | LWarn | LError

fun LOG_LEVELS :: "LogLevel \<Rightarrow> nat" where
  "LOG_LEVELS LDebug = 0"
| "LOG_LEVELS LInfo = 1"
| "LOG_LEVELS LWarn = 2"
| "LOG_LEVELS LError = 3"

definition shouldLog :: "LogLevel \<Rightarrow> LogLevel \<Rightarrow> bool" where
  "shouldLog minLevel level = (LOG_LEVELS level \<ge> LOG_LEVELS minLevel)"

text \<open>The level of the bridge's logger: \<open>createLogger\<close> returns a child of the
  module's logger, whose level is \<open>debug\<close> when the environment's \<open>DEBUG\<close> is
  \<open>'true'\<close> and \<open>info\<close> otherwise.\<close>

definition createLogger_minLevel :: "bool \<Rightarrow> LogLevel" where
  "createLogger_minLevel DEBUG = (if DEBUG then LDebug else LInfo)"

definition PluginBridgeError :: "string \<Rightarrow> js_error" where
  "PluginBridgeError message = FigmadError ''PluginBridgeError'' message ''PLUGIN_BRIDGE_ERROR''"

definition set_name :: "string \<Rightarrow> js_error \<Rightarrow> js_error" where
  "set_name n e = (case e of FigmadError n0 m c \<Rightarrow> FigmadError n m c | e' \<Rightarrow> e')"

definition PluginNotConnectedError :: js_error where
  "PluginNotConnectedError =
     set_name ''PluginNotConnectedError''
       (PluginBridgeError
          ''Figma plugin is not connected. Please open Figma and run the figmad plugin.'')"

definition PluginTimeoutError :: "string \<Rightarrow> nat \<Rightarrow> js_error" where
  "PluginTimeoutError commandType timeoutMs =
     set_name ''PluginTimeoutError''
       (PluginBridgeError
          (''Plugin command '' @ [CHR 0x27] @ commandType @ [CHR 0x27] @
           '' timed out after '' @ Number_toString timeoutMs @ ''ms''))"

text \<open>\<open>generateId\<close> reads the clock and the random generator: \<open>now\<close> is what
  \<open>Date.now()\<close> returned and \<open>rnd\<close> is
  \<open>Math.random().toString(36).substring(2, 9)\<close>.\<close>

definition generateId :: "nat \<Rightarrow> string \<Rightarrow> string" where
  "generateId now rnd = Number_toString now @ ''-'' @ rnd"

subsection \<open>The state\<close>

type_synonym sock = nat
type_synonym server = nat
type_synonym timer = nat
type_synonym promise = nat

text \<open>A WebSocket the server accepted is never \<open>CONNECTING\<close>.\<close>

datatype ready_state = OPEN | CLOSING | CLOSED

text \<open>\<open>resolve\<close> and \<open>reject\<close> are the two continuations of a promise; each is
  modelled by the promise it settles.\<close>

record PendingCommand =
  resolve :: promise
  reject :: promise
  timeout :: timer

text \<open>What the arrow function given to \<open>setTimeout\<close> in \<open>sendCommand\<close> closes
  over (\<open>id\<close>, \<open>command.type\<close>, \<open>reject\<close>), and the time from which the timer
  may fire.\<close>

record timer_closure =
  t_id :: string
  t_type :: string
  t_reject :: promise
  t_due :: nat

datatype outcome = Resolved json | Rejected js_error

record command =
  c_type :: string
  c_params :: json

record PluginCommand = command +
  c_id :: string
  c_timestamp :: nat

datatype log_data = NoData | Interpolated "json option" | Data json | Caught js_error

type_synonym log_entry = "LogLevel \<times> string \<times> log_data"

text \<open>
  The fields of the class come first. \<open>pendingCommands\<close> is a JavaScript \<open>Map\<close>:
  an association list in insertion order, where \<open>set\<close> keeps the position of a
  key that is present (\<open>AList.update\<close>) and \<open>delete\<close> removes it
  (\<open>AList.delete\<close>).
  The rest is the runtime: \<open>readyState\<close> of every socket, the servers \<open>close()\<close>
  was called on, the armed timers, the continuations invoked so far (in order),
  the frames handed to \<open>send\<close>, the calls made on the logger (a call prints when
  \<open>shouldLog\<close> holds of its level), and the clock the timers run on.
\<close>

record PluginBridge =
  wss :: "server option"
  client :: "sock option"
  pendingCommands :: "(string \<times> PendingCommand) list"
  port :: nat
  isRunning :: bool
  readyState :: "sock \<Rightarrow> ready_state"
  closed_servers :: "server list"
  next_server :: server
  timers :: "timer \<Rightarrow> timer_closure option"
  next_timer :: timer
  next_promise :: promise
  settled :: "(promise \<times> outcome) list"
  sent :: "(sock \<times> PluginCommand) list"
  logged :: "log_entry list"
  clock :: nat

definition COMMAND_TIMEOUT_MS :: nat where
  "COMMAND_TIMEOUT_MS = 30000"

definition new_PluginBridge :: "nat \<Rightarrow> PluginBridge" where
  "new_PluginBridge p =
     \<lparr> wss = None, client = None, pendingCommands = [], port = p, isRunning = False,
       readyState = (\<lambda>ws. CLOSED), closed_servers = [], next_server = 0,
       timers = (\<lambda>h. None), next_timer = 0, next_promise = 0, settled = [],
       sent = [], logged = [], clock = 0 \<rparr>"

subsection \<open>The runtime's operations\<close>

definition logger_call :: "LogLevel \<Rightarrow> string \<Rightarrow> log_data \<Rightarrow> PluginBridge \<Rightarrow> PluginBridge" where
  "logger_call level message d st = st\<lparr>logged := logged st @ [(level, message, d)]\<rparr>"

definition clearTimeout :: "timer \<Rightarrow> PluginBridge \<Rightarrow> PluginBridge" where
  "clearTimeout h st = st\<lparr>timers := (timers st)(h := None)\<rparr>"

text \<open>Invoking a continuation of promise \<open>p\<close>.\<close>

definition settle :: "promise \<Rightarrow> outcome \<Rightarrow> PluginBridge \<Rightarrow> PluginBridge" where
  "settle p out st = st\<lparr>settled := settled st @ [(p, out)]\<rparr>"

text \<open>\<open>ws.close()\<close>: an open socket starts its closing handshake.\<close>

definition ws_close :: "sock \<Rightarrow> PluginBridge \<Rightarrow> PluginBridge" where
  "ws_close ws st =
     st\<lparr>readyState := (readyState st)
           (ws := (case readyState st ws of OPEN \<Rightarrow> CLOSING | CLOSING \<Rightarrow> CLOSING | CLOSED \<Rightarrow> CLOSED))\<rparr>"

text \<open>\<open>wss.close()\<close> of the ws library stops the listener; it calls \<open>close()\<close> on no
  accepted socket. (The bridge uses the interface of ws 8: the named export
  \<open>WebSocketServer\<close>, and message data that has to be converted with
  \<open>toString()\<close>. Since that version, closing the server leaves the accepted
  connections as they are.)\<close>

definition wss_close :: "server \<Rightarrow> PluginBridge \<Rightarrow> PluginBridge" where
  "wss_close s st = st\<lparr>closed_servers := closed_servers st @ [s]\<rparr>"

text \<open>\<open>pendingCommands.get(key)\<close>: the keys are strings, so only a string finds
  an entry.\<close>

fun Map_get :: "(string \<times> PendingCommand) list \<Rightarrow> json option \<Rightarrow> PendingCommand option" where
  "Map_get m (Some (JStr k)) = map_of m k"
| "Map_get m key = None"

fun Map_delete :: "json option \<Rightarrow> (string \<times> PendingCommand) list \<Rightarrow> (string \<times> PendingCommand) list" where
  "Map_delete (Some (JStr k)) m = AList.delete k m"
| "Map_delete key m = m"

subsection \<open>The methods of PluginBridge\<close>

definition isConnected :: "PluginBridge \<Rightarrow> bool" where
  "isConnected st = (case client st of None \<Rightarrow> False | Some ws \<Rightarrow> readyState st ws = OPEN)"

text \<open>\<open>start()\<close>; the promise it returns (resolved by \<open>listening\<close>, rejected by
  \<open>error\<close>) is not a command's and is left out.\<close>

definition start :: "PluginBridge \<Rightarrow> PluginBridge" where
  "start st =
     (if isRunning st then st
      else st\<lparr>wss := Some (next_server st), next_server := Suc (next_server st)\<rparr>)"

definition on_listening :: "PluginBridge \<Rightarrow> PluginBridge" where
  "on_listening st =
     logger_call LInfo (''Plugin bridge listening on port '' @ Number_toString (port st)) NoData
       (st\<lparr>isRunning := True\<rparr>)"

text \<open>The \<open>error\<close> handlers of the server and of a socket log the error the
  runtime hands them; that error object is not part of the model.\<close>

definition on_server_error :: "PluginBridge \<Rightarrow> PluginBridge" where
  "on_server_error st = logger_call LError ''WebSocket server error'' NoData st"

definition stop_reject :: "string \<times> PendingCommand \<Rightarrow> PluginBridge \<Rightarrow> PluginBridge" where
  "stop_reject e st =
     settle (reject (snd e)) (Rejected (Error (JStr ''Plugin bridge stopped'')))
       (clearTimeout (timeout (snd e)) st)"

definition stop :: "PluginBridge \<Rightarrow> PluginBridge" where
  "stop st =
     (let st1 = (case wss st of None \<Rightarrow> st | Some s \<Rightarrow> (wss_close s st)\<lparr>wss := None\<rparr>);
          st2 = st1\<lparr>client := None, isRunning := False\<rparr>;
          st3 = fold stop_reject (pendingCommands st2) st2;
          st4 = st3\<lparr>pendingCommands := []\<rparr>
      in logger_call LInfo ''Plugin bridge stopped'' NoData st4)"

definition handleConnection :: "sock \<Rightarrow> PluginBridge \<Rightarrow> PluginBridge" where
  "handleConnection ws st =
     (let st1 = (case client st of
                   None \<Rightarrow> st
                 | Some old \<Rightarrow>
                     ws_close old
                       (logger_call LWarn ''New connection replacing existing client'' NoData st));
          st2 = st1\<lparr>client := Some ws\<rparr>
      in logger_call LInfo ''Figma plugin connected'' NoData st2)"

text \<open>
  Lines 109 to 113, which decide what a response gives the pending command it
  matches: \<open>if (response.success && response.result) resolve(response.result)\<close>,
  \<open>else reject(new Error(response.error || 'Unknown plugin error'))\<close>. A truthy
  result is defined, so \<open>the\<close> reads it. \<open>new Error(v)\<close> converts \<open>v\<close> to a string
  first: where that throws, \<open>reject\<close> is not called and the TypeError leaves
  \<open>handleResponse\<close> (\<open>Inl\<close>).
\<close>

definition response_outcome :: "json \<Rightarrow> js_error + outcome" where
  "response_outcome response =
     (if truthy (read_prop response ''success'') \<and> truthy (read_prop response ''result'')
      then Inr (Resolved (the (read_prop response ''result'')))
      else if can_ToString (js_or (read_prop response ''error'') (JStr ''Unknown plugin error''))
      then Inr (Rejected (Error (js_or (read_prop response ''error'')
                                   (JStr ''Unknown plugin error''))))
      else Inl TypeError)"

definition settle_response ::
  "PendingCommand \<Rightarrow> json \<Rightarrow> PluginBridge \<Rightarrow> js_error option \<times> PluginBridge" where
  "settle_response pending response st =
     (case response_outcome response of
        Inl e \<Rightarrow> (Some e, st)
      | Inr (Resolved r) \<Rightarrow> (None, settle (resolve pending) (Resolved r) st)
      | Inr (Rejected e) \<Rightarrow> (None, settle (reject pending) (Rejected e) st))"

text \<open>
  \<open>handleResponse\<close> returns the exception it throws, if any, and the state it
  leaves. It throws where reading \<open>response.id\<close> throws (the response is
  \<open>null\<close>) and where the warning's template literal cannot convert the id,
  both before it has changed anything; and where \<open>new Error\<close> throws, after it
  has cleared the timer and deleted the entry (lines 106 and 107).
\<close>

definition handleResponse :: "json \<Rightarrow> PluginBridge \<Rightarrow> js_error option \<times> PluginBridge" where
  "handleResponse response st =
     (case get_prop response ''id'' of
        Inl e \<Rightarrow> (Some e, st)
      | Inr rid \<Rightarrow>
          (case Map_get (pendingCommands st) rid of
             None \<Rightarrow>
               (if can_ToString_value rid
                then (None, logger_call LWarn ''Received response for unknown command: ''
                              (Interpolated rid) st)
                else (Some TypeError, st))
           | Some pending \<Rightarrow>
               (let st1 = clearTimeout (timeout pending) st;
                    st2 = st1\<lparr>pendingCommands := Map_delete rid (pendingCommands st1)\<rparr>
                in settle_response pending response st2)))"

text \<open>The socket's handlers, registered by \<open>handleConnection\<close>. \<open>parse\<close> is
  \<open>JSON.parse\<close> after \<open>data.toString()\<close>: \<open>None\<close> where it throws a SyntaxError.
  The \<open>catch\<close> of the message handler logs whatever \<open>handleResponse\<close> throws and
  keeps the state \<open>handleResponse\<close> left.\<close>

definition on_message :: "(string \<Rightarrow> json option) \<Rightarrow> string \<Rightarrow> PluginBridge \<Rightarrow> PluginBridge" where
  "on_message parse d st =
     (case parse d of
        None \<Rightarrow> logger_call LError ''Failed to parse plugin message'' (Caught SyntaxError) st
      | Some message \<Rightarrow>
          (case handleResponse message st of
             (Some e, st') \<Rightarrow> logger_call LError ''Failed to parse plugin message'' (Caught e) st'
           | (None, st') \<Rightarrow> st'))"

definition on_close :: "sock \<Rightarrow> PluginBridge \<Rightarrow> PluginBridge" where
  "on_close ws st =
     (if client st = Some ws
      then logger_call LInfo ''Figma plugin disconnected'' NoData (st\<lparr>client := None\<rparr>)
      else st)"

definition on_error :: "sock \<Rightarrow> PluginBridge \<Rightarrow> PluginBridge" where
  "on_error ws st = logger_call LError ''WebSocket client error'' NoData st"

text \<open>The timer callback of \<open>sendCommand\<close> (lines 135 to 138).\<close>

definition timeout_callback :: "timer_closure \<Rightarrow> PluginBridge \<Rightarrow> PluginBridge" where
  "timeout_callback tc st =
     settle (t_reject tc) (Rejected (PluginTimeoutError (t_type tc) COMMAND_TIMEOUT_MS))
       (st\<lparr>pendingCommands := AList.delete (t_id tc) (pendingCommands st)\<rparr>)"

text \<open>\<open>setTimeout(callback, ms)\<close> arms a fresh timer and returns its handle.\<close>

definition setTimeout :: "string \<Rightarrow> string \<Rightarrow> promise \<Rightarrow> nat \<Rightarrow> PluginBridge \<Rightarrow> timer \<times> PluginBridge" where
  "setTimeout cid ty p ms st =
     (next_timer st,
      st\<lparr>timers := (timers st)(next_timer st \<mapsto>
              \<lparr>t_id = cid, t_type = ty, t_reject = p, t_due = clock st + ms\<rparr>),
         next_timer := Suc (next_timer st)\<rparr>)"

text \<open>\<open>sendCommand(command)\<close>. \<open>now\<close> and \<open>rnd\<close> are the clock and the random
  suffix \<open>generateId\<close> read, \<open>ts\<close> is \<open>Date.now()\<close> of the timestamp. The function
  is \<open>async\<close>: its \<open>throw\<close> is the rejection of the promise it returns, \<open>Inl\<close>
  here; \<open>Inr p\<close> is the promise made by \<open>new Promise\<close>. \<open>JSON.stringify\<close> of a
  command and \<open>send\<close> on an open socket do not throw.\<close>

definition sendCommand :: "command \<Rightarrow> nat \<Rightarrow> string \<Rightarrow> nat \<Rightarrow> PluginBridge \<Rightarrow> (js_error + promise) \<times> PluginBridge" where
  "sendCommand cmd now rnd ts st =
     (if \<not> isConnected st then (Inl PluginNotConnectedError, st)
      else
        (let cid = generateId now rnd;
             fullCommand = \<lparr>c_type = c_type cmd, c_params = c_params cmd,
                             c_id = cid, c_timestamp = ts\<rparr>;
             p = next_promise st;
             st1 = st\<lparr>next_promise := Suc p\<rparr>;
             (h, st2) = setTimeout cid (c_type cmd) p COMMAND_TIMEOUT_MS st1;
             st3 = st2\<lparr>pendingCommands :=
                         AList.update cid \<lparr>resolve = p, reject = p, timeout = h\<rparr>
                           (pendingCommands st2)\<rparr>;
             st4 = (case client st3 of
                      None \<Rightarrow> st3
                    | Some ws \<Rightarrow> st3\<lparr>sent := sent st3 @ [(ws, fullCommand)]\<rparr>);
             st5 = logger_call LDebug (''Sent command: '' @ c_type cmd)
                     (Data (JObj [(''id'', JStr cid)])) st4
         in (Inr p, st5)))"

subsection \<open>Executions\<close>

text \<open>
  What can happen to a bridge: a call of one of its public methods, or the
  runtime invoking one of the callbacks the bridge registered. A new
  connection is an open socket; the \<open>close\<close> event of a socket comes when it is
  closed; a peer may start closing its socket at any time; a timer fires only
  while it is armed and not before it is due.
\<close>

datatype event =
    EvStart
  | EvListening
  | EvServerError
  | EvConnection sock
  | EvMessage sock string
  | EvClosing sock
  | EvClose sock
  | EvError sock
  | EvTimeout timer
  | EvTick nat
  | EvSendCommand command nat string nat
  | EvStop

definition fire_timer :: "timer \<Rightarrow> PluginBridge \<Rightarrow> PluginBridge" where
  "fire_timer h st =
     (case timers st h of
        None \<Rightarrow> st
      | Some tc \<Rightarrow> timeout_callback tc (st\<lparr>timers := (timers st)(h := None)\<rparr>))"

fun step :: "(string \<Rightarrow> json option) \<Rightarrow> event \<Rightarrow> PluginBridge \<Rightarrow> PluginBridge" where
  "step parse EvStart st = start st"
| "step parse EvListening st = on_listening st"
| "step parse EvServerError st = on_server_error st"
| "step parse (EvConnection ws) st =
     handleConnection ws (st\<lparr>readyState := (readyState st)(ws := OPEN)\<rparr>)"
| "step parse (EvMessage ws d) st = on_message parse d st"
| "step parse (EvClosing ws) st = ws_close ws st"
| "step parse (EvClose ws) st =
     on_close ws (st\<lparr>readyState := (readyState st)(ws := CLOSED)\<rparr>)"
| "step parse (EvError ws) st = on_error ws st"
| "step parse (EvTimeout h) st = fire_timer h st"
| "step parse (EvTick d) st = st\<lparr>clock := clock st + d\<rparr>"
| "step parse (EvSendCommand cmd now rnd ts) st = snd (sendCommand cmd now rnd ts st)"
| "step parse EvStop st = stop st"

fun enabled :: "PluginBridge \<Rightarrow> event \<Rightarrow> bool" where
  "enabled st (EvTimeout h) =
     (case timers st h of None \<Rightarrow> False | Some tc \<Rightarrow> t_due tc \<le> clock st)"
| "enabled st e = True"


fun exec :: "(string \<Rightarrow> json option) \<Rightarrow> event list \<Rightarrow> PluginBridge \<Rightarrow> PluginBridge option" where
  "exec parse [] st = Some st"
| "exec parse (e # es) st = (if enabled st e then exec parse es (step parse e st) else None)"





text \<open>A response that settles the command it matches: it resolves it, or its
  error (or the default message) can be converted to a string, so that
  \<open>new Error\<close> returns and \<open>reject\<close> is called. Every response whose \<open>error\<close> is
  a string or absent is one. \<open>settling_frame\<close> says so of the frame of a message
  event.\<close>

definition settling :: "json \<Rightarrow> bool" where
  "settling response \<longleftrightarrow>
     (truthy (read_prop response ''success'') \<and> truthy (read_prop response ''result'')) \<or>
     can_ToString (js_or (read_prop response ''error'') (JStr ''Unknown plugin error''))"


text \<open>The events that leave the timer \<open>h\<close> of the command with id \<open>cid\<close> armed:
  all but \<open>stop()\<close>, the firing of \<open>h\<close> itself, and a frame that parses to a
  response bearing the id \<open>cid\<close>.\<close>

fun leaves_armed :: "(string \<Rightarrow> json option) \<Rightarrow> string \<Rightarrow> timer \<Rightarrow> event \<Rightarrow> bool" where
  "leaves_armed parse cid h EvStop = False"
| "leaves_armed parse cid h (EvTimeout h') = (h' \<noteq> h)"
| "leaves_armed parse cid h (EvMessage ws d) =
     (case parse d of
        None \<Rightarrow> True
      | Some response \<Rightarrow> get_prop response ''id'' \<noteq> Inr (Some (JStr cid)))"
| "leaves_armed parse cid h e = True"

text \<open>The timer \<open>h\<close> of the command with id \<open>cid\<close> is armed with the callback
  \<open>tc\<close>, it has been given out, as the timer of every entry of the table has,
  and it is the timer of no entry under another id.\<close>

definition armed_for :: "string \<Rightarrow> timer \<Rightarrow> timer_closure \<Rightarrow> PluginBridge \<Rightarrow> bool" where
  "armed_for cid h tc st \<longleftrightarrow>
     timers st h = Some tc \<and> h < next_timer st \<and>
     (\<forall>x \<in> set (pendingCommands st).
        timeout (snd x) < next_timer st \<and> (timeout (snd x) = h \<longrightarrow> fst x = cid))"

subsection \<open>Concrete scenarios\<close>

text \<open>
  The scenarios of the specification's test plan, as inputs the theorems are
  run on: a bridge that was started and has one open peer; two commands A and
  B sent in that order in the same millisecond; the frames the peer may
  answer with. \<open>scenario_parse\<close> stands for \<open>JSON.parse\<close> on those frames: it
  gives the value of each of the eight frames that parse, and fails on every
  other frame.
\<close>

definition CREATE_FRAME :: command where
  "CREATE_FRAME =
     \<lparr>c_type = ''CREATE_FRAME'',
      c_params = JObj [(''name'', JStr ''Card''), (''width'', JNum 100), (''height'', JNum 50)]\<rparr>"

definition DELETE_NODE :: command where
  "DELETE_NODE = \<lparr>c_type = ''DELETE_NODE'', c_params = JObj [(''nodeId'', JStr ''1:23'')]\<rparr>"

definition reply_A :: json where
  "reply_A =
     JObj [(''id'', JStr ''1000-aaaaaaa''), (''success'', JBool True),
           (''result'', JObj [(''nodeId'', JStr ''1:23'')])]"

definition reply_B :: json where
  "reply_B =
     JObj [(''id'', JStr ''1000-bbbbbbb''), (''success'', JBool True),
           (''result'', JObj [(''nodeId'', JStr ''4:56'')])]"

definition reply_without_result :: json where
  "reply_without_result =
     JObj [(''id'', JStr ''1000-aaaaaaa''), (''success'', JBool True),
           (''error'', JStr ''boom'')]"

definition reply_error_object :: json where
  "reply_error_object =
     JObj [(''id'', JStr ''1000-aaaaaaa''), (''success'', JBool False),
           (''error'', JObj [(''toString'', JNum 1)])]"

definition reply_id_object :: json where
  "reply_id_object =
     JObj [(''id'', JObj [(''toString'', JNum 1)]), (''success'', JBool True),
           (''result'', JObj [(''nodeId'', JStr ''9:9'')])]"

definition reply_stopped :: json where
  "reply_stopped =
     JObj [(''id'', JStr ''1000-aaaaaaa''), (''success'', JBool False),
           (''error'', JStr ''Plugin bridge stopped'')]"

definition reply_unknown :: json where
  "reply_unknown =
     JObj [(''id'', JStr ''999-zzzzzzz''), (''success'', JBool True),
           (''result'', JObj [(''nodeId'', JStr ''9:9'')])]"

definition scenario_parse :: "string \<Rightarrow> json option" where
  "scenario_parse =
     map_of [(''reply A'', reply_A), (''reply B'', reply_B), (''reply unknown'', reply_unknown),
             (''reply without result'', reply_without_result),
             (''reply with an error object'', reply_error_object),
             (''reply with an id object'', reply_id_object),
             (''reply stopped'', reply_stopped), (''null'', JNull)]"

definition scenario_connected :: PluginBridge where
  "scenario_connected =
     step scenario_parse (EvConnection 1)
       (step scenario_parse EvListening
          (step scenario_parse EvStart (new_PluginBridge 9001)))"

definition scenario_AB :: PluginBridge where
  "scenario_AB =
     step scenario_parse (EvSendCommand DELETE_NODE 1000 ''bbbbbbb'' 1000)
       (step scenario_parse (EvSendCommand CREATE_FRAME 1000 ''aaaaaaa'' 1000)
          scenario_connected)"





text \<open>Two continuations of a bridge on which the command B alone has just been
  sent (its id is \<open>1000-bbbbbbb\<close>, its timer 0). In the first, A is sent and
  answered, a frame that does not parse arrives, and 30000 ms pass: no frame
  bears the id of B. In the second no frame arrives at all, but the bridge is
  stopped before the 30000 ms have passed.\<close>

definition connect_trace :: "event list" where
  "connect_trace = [EvStart, EvListening, EvConnection 1]"

definition quiet_trace :: "event list" where
  "quiet_trace =
     [EvSendCommand CREATE_FRAME 1000 ''aaaaaaa'' 1000, EvMessage 1 ''reply A'',
      EvMessage 1 ''not json'', EvTick 30000]"

definition stopped_trace :: "event list" where
  "stopped_trace = [EvTick 1000, EvStop, EvTick 29000]"

subsection \<open>The invariant of the correlation table\<close>

text \<open>
  What every execution keeps true of the table \<open>tbl\<close>, the armed timers \<open>tms\<close>,
  the invoked continuations \<open>stl\<close> and the two counters: the ids of the table
  are distinct and so are its promises; no promise was settled twice; an entry
  holds the two continuations of one promise, and its timer is armed and
  closes over the entry's id and promise; an armed timer belongs to the entry
  of its id; and the promises made so far are those pending in the table
  together with those settled, no promise being both.
\<close>

definition table_inv ::
  "(string \<times> PendingCommand) list \<Rightarrow> (timer \<Rightarrow> timer_closure option) \<Rightarrow>
   (promise \<times> outcome) list \<Rightarrow> promise \<Rightarrow> timer \<Rightarrow> bool" where
  "table_inv tbl tms stl np nt \<longleftrightarrow>
     distinct (map fst tbl) \<and>
     distinct (map (\<lambda>e. reject (snd e)) tbl) \<and>
     distinct (map fst stl) \<and>
     (\<forall>e \<in> set tbl. resolve (snd e) = reject (snd e) \<and>
        (\<exists>tc. tms (timeout (snd e)) = Some tc \<and> t_id tc = fst e \<and>
              t_reject tc = reject (snd e))) \<and>
     (\<forall>h tc. tms h = Some tc \<longrightarrow>
        h < nt \<and> (\<exists>pe. map_of tbl (t_id tc) = Some pe \<and> timeout pe = h)) \<and>
     (\<lambda>e. reject (snd e)) ` set tbl \<union> fst ` set stl = {..<np} \<and>
     (\<lambda>e. reject (snd e)) ` set tbl \<inter> fst ` set stl = {}"

definition bridge_inv :: "PluginBridge \<Rightarrow> bool" where
  "bridge_inv st =
     table_inv (pendingCommands st) (timers st) (settled st) (next_promise st) (next_timer st)"

section \<open>Proofs\<close>

subsection \<open>Evaluation and closed forms\<close>

lemmas bridge_defs =
  isConnected_def start_def on_listening_def on_server_error_def stop_reject_def
  handleConnection_def response_outcome_def handleResponse_def on_message_def
  on_close_def on_error_def timeout_callback_def setTimeout_def sendCommand_def
  fire_timer_def logger_call_def clearTimeout_def settle_def ws_close_def wss_close_def
  generateId_def digit_char_def COMMAND_TIMEOUT_MS_def new_PluginBridge_def Let_def
  read_prop_def js_or_def settle_response_def

lemma Number_toString_30000: "Number_toString 30000 = ''30000''"
  by (simp add: digit_char_def)

lemma PluginTimeoutError_eq:
  "PluginTimeoutError ty COMMAND_TIMEOUT_MS =
     FigmadError ''PluginTimeoutError''
       (''Plugin command '' @ [CHR 0x27] @ ty @ [CHR 0x27] @ '' timed out after 30000ms'')
       ''PLUGIN_BRIDGE_ERROR''"
  by (simp add: PluginTimeoutError_def PluginBridgeError_def set_name_def COMMAND_TIMEOUT_MS_def
      digit_char_def)

lemma logger_prints:
  "shouldLog (createLogger_minLevel DEBUG) LInfo"
  "shouldLog (createLogger_minLevel DEBUG) LWarn"
  "shouldLog (createLogger_minLevel DEBUG) LError"
  by (simp_all add: shouldLog_def createLogger_minLevel_def)

lemma scenario_connected_fields:
  "wss scenario_connected = Some 0"
  "client scenario_connected = Some 1"
  "pendingCommands scenario_connected = []"
  "isRunning scenario_connected = True"
  "readyState scenario_connected 1 = OPEN"
  "timers scenario_connected = (\<lambda>h. None)"
  "next_timer scenario_connected = 0"
  "next_promise scenario_connected = 0"
  "settled scenario_connected = []"
  "sent scenario_connected = []"
  "clock scenario_connected = 0"
  "closed_servers scenario_connected = []"
  "isConnected scenario_connected"
  by (simp_all add: scenario_connected_def bridge_defs)

lemma scenario_AB_fields:
  "client scenario_AB = Some 1"
  "readyState scenario_AB 1 = OPEN"
  "pendingCommands scenario_AB =
     [(''1000-aaaaaaa'', \<lparr>resolve = 0, reject = 0, timeout = 0\<rparr>),
      (''1000-bbbbbbb'', \<lparr>resolve = 1, reject = 1, timeout = 1\<rparr>)]"
  "timers scenario_AB 0 =
     Some \<lparr>t_id = ''1000-aaaaaaa'', t_type = ''CREATE_FRAME'', t_reject = 0, t_due = 30000\<rparr>"
  "timers scenario_AB 1 =
     Some \<lparr>t_id = ''1000-bbbbbbb'', t_type = ''DELETE_NODE'', t_reject = 1, t_due = 30000\<rparr>"
  "next_timer scenario_AB = 2"
  "next_promise scenario_AB = 2"
  "settled scenario_AB = []"
  "clock scenario_AB = 0"
  "isConnected scenario_AB"
  by (simp_all add: scenario_AB_def scenario_connected_def bridge_defs CREATE_FRAME_def
      DELETE_NODE_def)

lemma fold_stop_reject:
  "fold stop_reject xs s =
     s\<lparr>timers := (\<lambda>h. if h \<in> timeout ` snd ` set xs then None else timers s h),
       settled := settled s @
         map (\<lambda>e. (reject (snd e), Rejected (Error (JStr ''Plugin bridge stopped'')))) xs\<rparr>"
proof (induction xs arbitrary: s)
  case Nil
  then show ?case by simp
next
  case (Cons x xs)
  have "fold stop_reject (x # xs) s = fold stop_reject xs (stop_reject x s)"
    by simp
  also have "\<dots> = (stop_reject x s)
      \<lparr>timers := (\<lambda>h. if h \<in> timeout ` snd ` set xs then None
                     else timers (stop_reject x s) h),
       settled := settled (stop_reject x s) @
         map (\<lambda>e. (reject (snd e), Rejected (Error (JStr ''Plugin bridge stopped'')))) xs\<rparr>"
    by (rule Cons)
  also have "\<dots> =
     s\<lparr>timers := (\<lambda>h. if h \<in> timeout ` snd ` set (x # xs) then None else timers s h),
       settled := settled s @
         map (\<lambda>e. (reject (snd e), Rejected (Error (JStr ''Plugin bridge stopped'')))) (x # xs)\<rparr>"
    by (rule PluginBridge.equality)
       (auto simp: stop_reject_def settle_def clearTimeout_def fun_eq_iff)
  finally show ?case .
qed

lemma stop_eq:
  "stop st =
     st\<lparr>wss := None, client := None, isRunning := False,
        closed_servers := closed_servers st @ (case wss st of None \<Rightarrow> [] | Some s \<Rightarrow> [s]),
        timers := (\<lambda>h. if h \<in> timeout ` snd ` set (pendingCommands st) then None
                       else timers st h),
        settled := settled st @
          map (\<lambda>e. (reject (snd e), Rejected (Error (JStr ''Plugin bridge stopped''))))
            (pendingCommands st),
        pendingCommands := [],
        logged := logged st @ [(LInfo, ''Plugin bridge stopped'', NoData)]\<rparr>"
  by (cases "wss st"; rule PluginBridge.equality)
     (simp_all add: stop_def Let_def fold_stop_reject wss_close_def logger_call_def cong: if_cong)

lemma stop_idempotent:
  "stop (stop st) =
     (stop st)\<lparr>logged := logged (stop st) @ [(LInfo, ''Plugin bridge stopped'', NoData)]\<rparr>"
  by (rule PluginBridge.equality) (simp_all add: stop_eq)

lemma stop_not_connected: "\<not> isConnected (stop st)"
  by (simp add: stop_eq isConnected_def)

lemma handleConnection_eq:
  "handleConnection ws st =
     (case client st of
        None \<Rightarrow>
          st\<lparr>client := Some ws,
             logged := logged st @ [(LInfo, ''Figma plugin connected'', NoData)]\<rparr>
      | Some old \<Rightarrow>
          st\<lparr>client := Some ws,
             readyState := (readyState st)
               (old := (case readyState st old of OPEN \<Rightarrow> CLOSING | CLOSING \<Rightarrow> CLOSING
                        | CLOSED \<Rightarrow> CLOSED)),
             logged := logged st @
               [(LWarn, ''New connection replacing existing client'', NoData),
                (LInfo, ''Figma plugin connected'', NoData)]\<rparr>)"
  by (cases "client st"; rule PluginBridge.equality)
     (simp_all add: handleConnection_def Let_def ws_close_def logger_call_def)

lemma handleResponse_matched:
  assumes "get_prop response ''id'' = Inr (Some (JStr k))"
    and "map_of (pendingCommands st) k = Some pe"
  shows "handleResponse response st =
     settle_response pe response
       (st\<lparr>timers := (timers st)(timeout pe := None),
           pendingCommands := AList.delete k (pendingCommands st)\<rparr>)"
  using assms
  by (simp add: handleResponse_def Let_def clearTimeout_def)

lemma handleResponse_unmatched:
  assumes "get_prop response ''id'' = Inr rid"
    and "Map_get (pendingCommands st) rid = None"
  shows "handleResponse response st =
     (if can_ToString_value rid
      then (None, st\<lparr>logged := logged st @
              [(LWarn, ''Received response for unknown command: '', Interpolated rid)]\<rparr>)
      else (Some TypeError, st))"
  using assms by (simp add: handleResponse_def logger_call_def)



lemma settle_response_fields:
  "pendingCommands (snd (settle_response pe response st)) = pendingCommands st"
  "timers (snd (settle_response pe response st)) = timers st"
  "next_timer (snd (settle_response pe response st)) = next_timer st"
  "next_promise (snd (settle_response pe response st)) = next_promise st"
  "client (snd (settle_response pe response st)) = client st"
  "readyState (snd (settle_response pe response st)) = readyState st"
  by (simp_all add: settle_response_def settle_def split: sum.splits outcome.splits)

lemma handleResponse_frame:
  "client (snd (handleResponse r st)) = client st"
  "readyState (snd (handleResponse r st)) = readyState st"
  "next_timer (snd (handleResponse r st)) = next_timer st"
  "next_promise (snd (handleResponse r st)) = next_promise st"
  by (simp_all add: handleResponse_def Let_def clearTimeout_def settle_response_fields
      logger_call_def split: sum.splits option.splits)

lemma on_message_parsed:
  assumes "parse d = Some message"
  shows "client (on_message parse d st) = client (snd (handleResponse message st))"
    and "readyState (on_message parse d st) = readyState (snd (handleResponse message st))"
    and "pendingCommands (on_message parse d st) =
      pendingCommands (snd (handleResponse message st))"
    and "timers (on_message parse d st) = timers (snd (handleResponse message st))"
    and "settled (on_message parse d st) = settled (snd (handleResponse message st))"
    and "next_timer (on_message parse d st) = next_timer (snd (handleResponse message st))"
    and "next_promise (on_message parse d st) = next_promise (snd (handleResponse message st))"
  using assms
  by (cases "handleResponse message st"; cases "fst (handleResponse message st)";
      simp add: on_message_def logger_call_def)+

lemma sendCommand_connected:
  assumes "isConnected st"
  shows "sendCommand cmd now rnd ts st =
     (Inr (next_promise st),
      st\<lparr>next_promise := Suc (next_promise st),
         timers := (timers st)(next_timer st \<mapsto>
            \<lparr>t_id = generateId now rnd, t_type = c_type cmd, t_reject = next_promise st,
             t_due = clock st + 30000\<rparr>),
         next_timer := Suc (next_timer st),
         pendingCommands :=
           AList.update (generateId now rnd)
             \<lparr>resolve = next_promise st, reject = next_promise st, timeout = next_timer st\<rparr>
             (pendingCommands st),
         sent := sent st @
           [(the (client st),
             \<lparr>c_type = c_type cmd, c_params = c_params cmd, c_id = generateId now rnd,
              c_timestamp = ts\<rparr>)],
         logged := logged st @
           [(LDebug, ''Sent command: '' @ c_type cmd,
             Data (JObj [(''id'', JStr (generateId now rnd))]))]\<rparr>)"
proof -
  from assms obtain ws where ws: "client st = Some ws"
    by (auto simp: isConnected_def split: option.splits)
  show ?thesis
    using assms ws
    by (simp add: sendCommand_def Let_def setTimeout_def logger_call_def COMMAND_TIMEOUT_MS_def)
qed

lemma fire_timer_armed:
  assumes "timers s h = Some tc"
  shows "fire_timer h s =
     s\<lparr>timers := (timers s)(h := None),
       pendingCommands := AList.delete (t_id tc) (pendingCommands s),
       settled := settled s @
         [(t_reject tc, Rejected (PluginTimeoutError (t_type tc) COMMAND_TIMEOUT_MS))]\<rparr>"
  using assms by (simp add: fire_timer_def timeout_callback_def settle_def)

subsection \<open>sendCommand without a peer\<close>

text \<open>
  C2. For every command type and parameters, \<open>sendCommand\<close> called while
  \<open>isConnected()\<close> is false fails with a \<open>PluginNotConnectedError\<close> before any
  change of state: the state after the call is the state before it, so no id
  was generated, the correlation table holds what it held, and no timer was
  started.
\<close>

theorem C2_sendCommand_not_connected:
  "\<not> isConnected st \<Longrightarrow>
     sendCommand cmd now rnd ts st = (Inl PluginNotConnectedError, st)"
  by (simp add: sendCommand_def)

theorem C2_sendCommand_not_connected_witness:
  "\<not> isConnected (new_PluginBridge 9001) \<and>
   sendCommand CREATE_FRAME 1000 ''aaaaaaa'' 1000 (new_PluginBridge 9001) =
     (Inl PluginNotConnectedError, new_PluginBridge 9001) \<and>
   error_message PluginNotConnectedError =
     Some ''Figma plugin is not connected. Please open Figma and run the figmad plugin.''"
proof -
  have h: "\<not> isConnected (new_PluginBridge 9001)"
    by (simp add: isConnected_def new_PluginBridge_def)
  show ?thesis
    using h C2_sendCommand_not_connected [OF h, of CREATE_FRAME 1000 "''aaaaaaa''" 1000]
    by (simp add: PluginNotConnectedError_def PluginBridgeError_def set_name_def)
qed

subsection \<open>stop()\<close>




subsection \<open>Replacing the peer\<close>

text \<open>
  C5. When a connection arrives while a peer \<open>old\<close> is attached,
  \<open>handleConnection\<close> logs a warning (which the bridge's logger prints at
  either of its levels), calls \<open>close()\<close> on \<open>old\<close> and then attaches
  the new socket; nothing else of the state changes. The one \<open>client\<close> field is
  the only socket \<open>sendCommand\<close> sends to. The correlation table, the timers and
  the invoked continuations are untouched, and a matching response or a timer
  acts on a pending entry after the replacement as it would have before.
\<close>

theorem C5_replacement_keeps_pending:
  assumes "client st = Some old"
  shows "handleConnection ws st =
     st\<lparr>client := Some ws,
        readyState := (readyState st)
          (old := (case readyState st old of OPEN \<Rightarrow> CLOSING | CLOSING \<Rightarrow> CLOSING
                   | CLOSED \<Rightarrow> CLOSED)),
        logged := logged st @
          [(LWarn, ''New connection replacing existing client'', NoData),
           (LInfo, ''Figma plugin connected'', NoData)]\<rparr> \<and>
    pendingCommands (handleConnection ws st) = pendingCommands st \<and>
    timers (handleConnection ws st) = timers st \<and>
    settled (handleConnection ws st) = settled st \<and>
    (\<forall>r k pe. get_prop r ''id'' = Inr (Some (JStr k)) \<and>
         map_of (pendingCommands st) k = Some pe \<longrightarrow>
       handleResponse r (handleConnection ws st) =
         map_prod id (handleConnection ws) (handleResponse r st)) \<and>
    (\<forall>h. fire_timer h (handleConnection ws st) = handleConnection ws (fire_timer h st)) \<and>
    (\<forall>cmd now rnd ts.
       sent (snd (sendCommand cmd now rnd ts (handleConnection ws st))) =
         sent st @
           (if readyState (handleConnection ws st) ws = OPEN
            then [(ws, \<lparr>c_type = c_type cmd, c_params = c_params cmd,
                        c_id = generateId now rnd, c_timestamp = ts\<rparr>)]
            else [])) \<and>
    shouldLog (createLogger_minLevel DEBUG) LWarn"
proof -
  let ?st' = "handleConnection ws st"
  have eq: "?st' =
     st\<lparr>client := Some ws,
        readyState := (readyState st)
          (old := (case readyState st old of OPEN \<Rightarrow> CLOSING | CLOSING \<Rightarrow> CLOSING
                   | CLOSED \<Rightarrow> CLOSED)),
        logged := logged st @
          [(LWarn, ''New connection replacing existing client'', NoData),
           (LInfo, ''Figma plugin connected'', NoData)]\<rparr>"
    by (simp add: handleConnection_eq assms)
  have frame: "pendingCommands ?st' = pendingCommands st" "timers ?st' = timers st"
    "settled ?st' = settled st" "sent ?st' = sent st" "client ?st' = Some ws"
    by (simp_all add: eq)
  have resp: "handleResponse r ?st' = map_prod id (handleConnection ws) (handleResponse r st)"
    if "get_prop r ''id'' = Inr (Some (JStr k))" "map_of (pendingCommands st) k = Some pe"
    for r k pe
  proof -
    from that frame have m': "map_of (pendingCommands ?st') k = Some pe"
      by simp
    have comm: "settle_response pe r (handleConnection ws s) =
        map_prod id (handleConnection ws) (settle_response pe r s)" for s
      by (auto simp: settle_response_def settle_def handleConnection_eq
          split: sum.splits outcome.splits option.splits intro!: PluginBridge.equality)
    have "?st'\<lparr>timers := (timers ?st')(timeout pe := None),
              pendingCommands := AList.delete k (pendingCommands ?st')\<rparr> =
        handleConnection ws (st\<lparr>timers := (timers st)(timeout pe := None),
              pendingCommands := AList.delete k (pendingCommands st)\<rparr>)"
      by (rule PluginBridge.equality) (simp_all add: handleConnection_eq assms)
    then show ?thesis
      unfolding handleResponse_matched [OF that] handleResponse_matched [OF that(1) m']
      by (simp add: comm)
  qed
  have fire: "fire_timer h ?st' = handleConnection ws (fire_timer h st)" for h
  proof (cases "timers st h")
    case None
    then show ?thesis
      by (simp add: fire_timer_def frame)
  next
    case (Some tc)
    with frame have armed': "timers ?st' h = Some tc"
      by simp
    show ?thesis
      unfolding fire_timer_armed [OF Some] fire_timer_armed [OF armed']
      by (rule PluginBridge.equality) (simp_all add: handleConnection_eq assms)
  qed
  have snt: "sent (snd (sendCommand cmd now rnd ts ?st')) =
      sent st @
        (if readyState ?st' ws = OPEN
         then [(ws, \<lparr>c_type = c_type cmd, c_params = c_params cmd,
                     c_id = generateId now rnd, c_timestamp = ts\<rparr>)]
         else [])" for cmd now rnd ts
  proof (cases "isConnected ?st'")
    case True
    then have "readyState ?st' ws = OPEN"
      by (simp add: isConnected_def frame)
    then show ?thesis
      by (simp add: sendCommand_connected [OF True] frame)
  next
    case False
    then have "readyState ?st' ws \<noteq> OPEN"
      by (simp add: isConnected_def frame)
    then show ?thesis
      using False by (simp add: sendCommand_def frame)
  qed
  from eq frame resp fire snt logger_prints(2) show ?thesis
    by blast
qed

theorem C5_replacement_keeps_pending_witness:
  "client scenario_AB = Some 1 \<and>
   (let st' = handleConnection 2 (scenario_AB\<lparr>readyState := (readyState scenario_AB)(2 := OPEN)\<rparr>)
    in client st' = Some 2 \<and> readyState st' 1 = CLOSING \<and> readyState st' 2 = OPEN \<and>
       pendingCommands st' = pendingCommands scenario_AB \<and>
       timers st' = timers scenario_AB \<and>
       settled st' = settled scenario_AB \<and>
       logged st' = logged scenario_AB @
          [(LWarn, ''New connection replacing existing client'', NoData),
           (LInfo, ''Figma plugin connected'', NoData)])"
proof -
  let ?s = "scenario_AB\<lparr>readyState := (readyState scenario_AB)(2 := OPEN)\<rparr>"
  have h: "client ?s = Some 1"
    by (simp add: scenario_AB_fields)
  from C5_replacement_keeps_pending [OF h, of 2] have
    "handleConnection 2 ?s =
     ?s\<lparr>client := Some 2,
        readyState := (readyState ?s)
          (1 := (case readyState ?s 1 of OPEN \<Rightarrow> CLOSING | CLOSING \<Rightarrow> CLOSING
                   | CLOSED \<Rightarrow> CLOSED)),
        logged := logged ?s @
          [(LWarn, ''New connection replacing existing client'', NoData),
           (LInfo, ''Figma plugin connected'', NoData)]\<rparr>"
    by blast
  then show ?thesis
    by (simp add: Let_def scenario_AB_fields scenario_AB_fields [simplified])
qed

subsection \<open>Inbound frames\<close>

text \<open>
  C6, as the code has it. A frame that \<open>JSON.parse\<close> rejects is logged as an
  error and otherwise ignored: the state is unchanged but for the log, so the
  peer stays attached and its socket keeps its ready state. A parsed response
  whose \<open>id\<close> finds no entry in the correlation table (unknown, already settled
  or timed out) changes nothing but the log either: no entry, timer or
  continuation is touched. \<open>handleResponse\<close> returns normally, with a warning
  logged, when the id can be converted to a string for the warning; when it
  cannot (an object with an own \<open>toString\<close> property), and when the frame is
  \<open>null\<close>, \<open>handleResponse\<close> throws a TypeError before it has changed
  anything, and the message handler catches it and logs an error. The bridge's
  logger prints both log lines at either of its levels. No frame at all makes
  the message handler detach or close the peer.
\<close>

theorem C6_bad_frames_are_ignored:
  "(parse d = None \<longrightarrow>
      on_message parse d st =
        st\<lparr>logged := logged st @
             [(LError, ''Failed to parse plugin message'', Caught SyntaxError)]\<rparr>) \<and>
   (get_prop response ''id'' = Inr rid \<and> Map_get (pendingCommands st) rid = None \<and>
    can_ToString_value rid \<longrightarrow>
      handleResponse response st =
        (None, st\<lparr>logged := logged st @
               [(LWarn, ''Received response for unknown command: '', Interpolated rid)]\<rparr>)) \<and>
   (get_prop response ''id'' = Inr rid \<and> Map_get (pendingCommands st) rid = None \<and>
    \<not> can_ToString_value rid \<longrightarrow>
      handleResponse response st = (Some TypeError, st)) \<and>
   handleResponse JNull st = (Some TypeError, st) \<and>
   (parse d = Some response \<and> get_prop response ''id'' = Inr rid \<and>
    Map_get (pendingCommands st) rid = None \<longrightarrow>
      on_message parse d st =
        st\<lparr>logged := logged st @
             [if can_ToString_value rid
              then (LWarn, ''Received response for unknown command: '', Interpolated rid)
              else (LError, ''Failed to parse plugin message'', Caught TypeError)]\<rparr>) \<and>
   (parse d = Some JNull \<longrightarrow>
      on_message parse d st =
        st\<lparr>logged := logged st @
             [(LError, ''Failed to parse plugin message'', Caught TypeError)]\<rparr>) \<and>
   client (on_message parse d st) = client st \<and>
   readyState (on_message parse d st) = readyState st \<and>
   shouldLog (createLogger_minLevel DEBUG) LWarn \<and>
   shouldLog (createLogger_minLevel DEBUG) LError"
proof -
  have frame: "client (on_message parse d st) = client st \<and>
      readyState (on_message parse d st) = readyState st"
  proof (cases "parse d")
    case None
    then show ?thesis
      by (simp add: on_message_def logger_call_def)
  next
    case (Some message)
    then show ?thesis
      by (simp add: on_message_parsed handleResponse_frame)
  qed
  have null: "handleResponse JNull st = (Some TypeError, st)"
    by (simp add: handleResponse_def)
  from frame null show ?thesis
    by (auto simp: on_message_def handleResponse_unmatched logger_call_def logger_prints)
qed

theorem C6_bad_frames_are_ignored_witness:
  "scenario_parse ''not json'' = None \<and>
   on_message scenario_parse ''not json'' scenario_AB =
     scenario_AB\<lparr>logged := logged scenario_AB @
        [(LError, ''Failed to parse plugin message'', Caught SyntaxError)]\<rparr> \<and>
   scenario_parse ''reply unknown'' = Some reply_unknown \<and>
   get_prop reply_unknown ''id'' = Inr (Some (JStr ''999-zzzzzzz'')) \<and>
   Map_get (pendingCommands scenario_AB) (Some (JStr ''999-zzzzzzz'')) = None \<and>
   can_ToString_value (Some (JStr ''999-zzzzzzz'')) \<and>
   handleResponse reply_unknown scenario_AB =
     (None, scenario_AB\<lparr>logged := logged scenario_AB @
        [(LWarn, ''Received response for unknown command: '',
          Interpolated (Some (JStr ''999-zzzzzzz'')))]\<rparr>) \<and>
   on_message scenario_parse ''reply unknown'' scenario_AB =
     scenario_AB\<lparr>logged := logged scenario_AB @
        [(LWarn, ''Received response for unknown command: '',
          Interpolated (Some (JStr ''999-zzzzzzz'')))]\<rparr> \<and>
   scenario_parse ''reply with an id object'' = Some reply_id_object \<and>
   get_prop reply_id_object ''id'' = Inr (Some (JObj [(''toString'', JNum 1)])) \<and>
   Map_get (pendingCommands scenario_AB) (Some (JObj [(''toString'', JNum 1)])) = None \<and>
   \<not> can_ToString_value (Some (JObj [(''toString'', JNum 1)])) \<and>
   on_message scenario_parse ''reply with an id object'' scenario_AB =
     scenario_AB\<lparr>logged := logged scenario_AB @
        [(LError, ''Failed to parse plugin message'', Caught TypeError)]\<rparr> \<and>
   scenario_parse ''null'' = Some JNull \<and>
   on_message scenario_parse ''null'' scenario_AB =
     scenario_AB\<lparr>logged := logged scenario_AB @
        [(LError, ''Failed to parse plugin message'', Caught TypeError)]\<rparr>"
proof -
  have p1: "scenario_parse ''not json'' = None"
    and p2: "scenario_parse ''reply unknown'' = Some reply_unknown"
    and p3: "scenario_parse ''null'' = Some JNull"
    and p4: "scenario_parse ''reply with an id object'' = Some reply_id_object"
    by (simp_all add: scenario_parse_def)
  have i: "get_prop reply_unknown ''id'' = Inr (Some (JStr ''999-zzzzzzz''))"
    and j: "get_prop reply_id_object ''id'' = Inr (Some (JObj [(''toString'', JNum 1)]))"
    by (simp_all add: reply_unknown_def reply_id_object_def)
  have m: "Map_get (pendingCommands scenario_AB) (Some (JStr ''999-zzzzzzz'')) = None"
    and n: "Map_get (pendingCommands scenario_AB) (Some (JObj [(''toString'', JNum 1)])) = None"
    by (simp_all add: scenario_AB_fields)
  show ?thesis
    using p1 p2 p3 p4 i j m n
      C6_bad_frames_are_ignored [of scenario_parse "''not json''" scenario_AB reply_unknown
        "Some (JStr ''999-zzzzzzz'')"]
      C6_bad_frames_are_ignored [of scenario_parse "''reply unknown''" scenario_AB reply_unknown
        "Some (JStr ''999-zzzzzzz'')"]
      C6_bad_frames_are_ignored [of scenario_parse "''reply with an id object''" scenario_AB
        reply_id_object "Some (JObj [(''toString'', JNum 1)])"]
      C6_bad_frames_are_ignored [of scenario_parse "''null''" scenario_AB reply_unknown
        "Some (JStr ''999-zzzzzzz'')"]
    by simp
qed

text \<open>The claim as the specification states it fails: for a parsed response whose
  \<open>id\<close> is an object with an own \<open>toString\<close> property (no entry has this id),
  and for the frame \<open>null\<close>, \<open>handleResponse\<close> throws.\<close>

theorem C6_handleResponse_throws_counterexample:
  "get_prop reply_id_object ''id'' = Inr (Some (JObj [(''toString'', JNum 1)])) \<and>
   Map_get (pendingCommands scenario_AB) (Some (JObj [(''toString'', JNum 1)])) = None \<and>
   handleResponse reply_id_object scenario_AB = (Some TypeError, scenario_AB) \<and>
   handleResponse JNull scenario_AB = (Some TypeError, scenario_AB)"
  by (simp add: reply_id_object_def handleResponse_def scenario_AB_fields)

subsection \<open>Responses in any order\<close>




subsection \<open>Success without a result\<close>

text \<open>
  C10, as the code has it. Take a response whose \<open>id\<close> matches a pending entry
  and which resolves or carries an error that can be converted to a string
  (every response whose error is a string or absent does). It removes the
  entry and clears its timer. The promise is resolved, with the response's
  result, exactly when \<open>success\<close> and \<open>result\<close> are both truthy (for a response of
  the declared type: \<open>success\<close> is \<open>true\<close> and a result is present). Otherwise it
  is rejected and never resolved: with the response's \<open>error\<close> if that is truthy
  (a non-empty string), and with \<open>'Unknown plugin error'\<close> if the response has
  no error string or an empty one. So a response with \<open>success: true\<close>, no result
  and no error string is rejected with \<open>'Unknown plugin error'\<close>, as a failure
  without an error string is.
\<close>

theorem C10_resolved_iff_success_and_result:
  assumes "get_prop response ''id'' = Inr (Some (JStr k))"
    and "map_of (pendingCommands st) k = Some pe"
    and "settling response"
  shows "\<exists>st'. handleResponse response st = (None, st') \<and>
     pendingCommands st' = AList.delete k (pendingCommands st) \<and>
     timers st' = (timers st)(timeout pe := None) \<and>
     settled st' = settled st @
       [if truthy (read_prop response ''success'') \<and> truthy (read_prop response ''result'')
        then (resolve pe, Resolved (the (read_prop response ''result'')))
        else (reject pe,
              Rejected (Error (if truthy (read_prop response ''error'')
                               then the (read_prop response ''error'')
                               else JStr ''Unknown plugin error'')))] \<and>
     (read_prop response ''success'' = Some (JBool True) \<and>
      read_prop response ''result'' = None \<and>
      (read_prop response ''error'' = None \<or> read_prop response ''error'' = Some (JStr ''''))
      \<longrightarrow> settled st' = settled st @
            [(reject pe, Rejected (Error (JStr ''Unknown plugin error'')))])"
  using assms(3) unfolding handleResponse_matched [OF assms(1,2)]
  by (auto simp: settling_def settle_response_def response_outcome_def settle_def js_or_def)

theorem C10_resolved_iff_success_and_result_witness:
  "get_prop (JObj [(''id'', JStr ''1000-aaaaaaa''), (''success'', JBool True)]) ''id'' =
     Inr (Some (JStr ''1000-aaaaaaa'')) \<and>
   map_of (pendingCommands scenario_AB) ''1000-aaaaaaa'' =
     Some \<lparr>resolve = 0, reject = 0, timeout = 0\<rparr> \<and>
   settling (JObj [(''id'', JStr ''1000-aaaaaaa''), (''success'', JBool True)]) \<and>
   settling reply_A \<and>
   map_prod id settled
     (handleResponse (JObj [(''id'', JStr ''1000-aaaaaaa''), (''success'', JBool True)])
        scenario_AB) =
     (None, [(0, Rejected (Error (JStr ''Unknown plugin error'')))]) \<and>
   map_prod id settled (handleResponse reply_A scenario_AB) =
     (None, [(0, Resolved (JObj [(''nodeId'', JStr ''1:23'')]))])"
proof -
  let ?r = "JObj [(''id'', JStr ''1000-aaaaaaa''), (''success'', JBool True)]"
  have i: "get_prop ?r ''id'' = Inr (Some (JStr ''1000-aaaaaaa''))"
    and iA: "get_prop reply_A ''id'' = Inr (Some (JStr ''1000-aaaaaaa''))"
    by (simp_all add: reply_A_def)
  have m: "map_of (pendingCommands scenario_AB) ''1000-aaaaaaa'' =
      Some \<lparr>resolve = 0, reject = 0, timeout = 0\<rparr>"
    by (simp add: scenario_AB_fields)
  have s: "settling ?r" and sA: "settling reply_A"
    by (simp_all add: settling_def read_prop_def js_or_def reply_A_def)
  from C10_resolved_iff_success_and_result [OF i m s]
    C10_resolved_iff_success_and_result [OF iA m sA]
  show ?thesis
    using i m s sA by (auto simp: read_prop_def reply_A_def scenario_AB_fields)
qed

theorem C10_error_string_counterexample:
  "get_prop reply_without_result ''id'' = Inr (Some (JStr ''1000-aaaaaaa'')) \<and>
   map_of (pendingCommands scenario_AB) ''1000-aaaaaaa'' =
     Some \<lparr>resolve = 0, reject = 0, timeout = 0\<rparr> \<and>
   read_prop reply_without_result ''success'' = Some (JBool True) \<and>
   read_prop reply_without_result ''result'' = None \<and>
   map_prod id settled (handleResponse reply_without_result scenario_AB) =
     (None, [(0, Rejected (Error (JStr ''boom'')))]) \<and>
   Error (JStr ''boom'') \<noteq> Error (JStr ''Unknown plugin error'')"
  by (simp add: reply_without_result_def read_prop_def handleResponse_def scenario_AB_fields
      response_outcome_def settle_response_def js_or_def settle_def clearTimeout_def Let_def)

subsection \<open>An id that is already registered\<close>

text \<open>
  C8, as the code has it. \<open>sendCommand\<close> does not test whether the generated id
  is already a key of the correlation table. When it is, the call succeeds and
  returns a new promise, \<open>Map.set\<close> replaces the entry of that id, in its
  place, by the new command's entry (the new promise's continuations and the
  new timer), and the only call on the logger is the debug line of every
  send. No other entry changes, no continuation is invoked, and the only
  change to the timers is that the new one is armed.
\<close>

theorem C8_duplicate_id_replaces_entry:
  assumes "isConnected st"
    and "map_of (pendingCommands st) (generateId now rnd) = Some old_entry"
  shows "fst (sendCommand cmd now rnd ts st) = Inr (next_promise st) \<and>
    (let st' = snd (sendCommand cmd now rnd ts st);
         cid = generateId now rnd;
         new_entry = \<lparr>resolve = next_promise st, reject = next_promise st,
                       timeout = next_timer st\<rparr>
     in pendingCommands st' = AList.update cid new_entry (pendingCommands st) \<and>
        map_of (pendingCommands st') cid = Some new_entry \<and>
        map fst (pendingCommands st') = map fst (pendingCommands st) \<and>
        (\<forall>k. k \<noteq> cid \<longrightarrow> map_of (pendingCommands st') k = map_of (pendingCommands st) k) \<and>
        settled st' = settled st \<and>
        timers st' = (timers st)(next_timer st \<mapsto>
            \<lparr>t_id = cid, t_type = c_type cmd, t_reject = next_promise st,
             t_due = clock st + 30000\<rparr>) \<and>
        logged st' = logged st @
           [(LDebug, ''Sent command: '' @ c_type cmd, Data (JObj [(''id'', JStr cid)]))])"
proof -
  from assms(2) have "generateId now rnd \<in> fst ` set (pendingCommands st)"
    by (metis domI dom_map_of_conv_image_fst)
  then have keys: "map fst (AList.update (generateId now rnd) e (pendingCommands st)) =
      map fst (pendingCommands st)" for e
    by (simp add: update_keys)
  show ?thesis
    by (simp add: sendCommand_connected [OF assms(1)] Let_def update_conv' keys)
qed

theorem C8_duplicate_id_replaces_entry_witness:
  "isConnected scenario_AB \<and>
   map_of (pendingCommands scenario_AB) (generateId 1000 ''aaaaaaa'') =
     Some \<lparr>resolve = 0, reject = 0, timeout = 0\<rparr> \<and>
   pendingCommands (snd (sendCommand DELETE_NODE 1000 ''aaaaaaa'' 1000 scenario_AB)) =
     [(''1000-aaaaaaa'', \<lparr>resolve = 2, reject = 2, timeout = 2\<rparr>),
      (''1000-bbbbbbb'', \<lparr>resolve = 1, reject = 1, timeout = 1\<rparr>)] \<and>
   settled (snd (sendCommand DELETE_NODE 1000 ''aaaaaaa'' 1000 scenario_AB)) = []"
proof -
  have h: "isConnected scenario_AB"
    by (rule scenario_AB_fields)
  have g: "generateId 1000 ''aaaaaaa'' = ''1000-aaaaaaa''"
    by (simp add: generateId_def digit_char_def)
  have m: "map_of (pendingCommands scenario_AB) (generateId 1000 ''aaaaaaa'') =
      Some \<lparr>resolve = 0, reject = 0, timeout = 0\<rparr>"
    by (simp add: g scenario_AB_fields)
  from C8_duplicate_id_replaces_entry [OF h m, of DELETE_NODE 1000] show ?thesis
    using h m by (simp add: Let_def g scenario_AB_fields)
qed

text \<open>The claim as the specification states it fails: two sends in the same
  millisecond that draw the same random suffix get the same id, and the second
  replaces the entry of the first and logs no failure.\<close>

theorem C8_duplicate_id_counterexample:
  "generateId 1000 ''aaaaaaa'' = ''1000-aaaaaaa'' \<and>
   map_of (pendingCommands scenario_AB) ''1000-aaaaaaa'' =
     Some \<lparr>resolve = 0, reject = 0, timeout = 0\<rparr> \<and>
   fst (sendCommand CREATE_FRAME 1000 ''aaaaaaa'' 1000 scenario_AB) = Inr 2 \<and>
   map_of (pendingCommands (snd (sendCommand CREATE_FRAME 1000 ''aaaaaaa'' 1000 scenario_AB)))
     ''1000-aaaaaaa'' =
     Some \<lparr>resolve = 2, reject = 2, timeout = 2\<rparr> \<and>
   logged (snd (sendCommand CREATE_FRAME 1000 ''aaaaaaa'' 1000 scenario_AB)) =
     logged scenario_AB @
       [(LDebug, ''Sent command: CREATE_FRAME'', Data (JObj [(''id'', JStr ''1000-aaaaaaa'')]))]"
proof -
  have h: "isConnected scenario_AB"
    by (rule scenario_AB_fields)
  show ?thesis
    by (simp add: sendCommand_connected [OF h] scenario_AB_fields generateId_def digit_char_def
        CREATE_FRAME_def)
qed

subsection \<open>stop() and the attached peer\<close>

text \<open>
  C9. On a started bridge with an open peer attached, \<open>stop()\<close> closes the
  listener and forgets the peer (\<open>client\<close> becomes \<open>null\<close>, so \<open>isConnected()\<close> is
  false), but it calls \<open>close()\<close> on no socket: the peer's socket is as open
  after \<open>stop()\<close> as it was before. (\<open>handleConnection\<close>, the other place that
  drops a client, calls \<open>close()\<close> on it.) A second \<open>stop()\<close> changes nothing but
  the log (lemma \<open>stop_idempotent\<close>).
\<close>

theorem C9_stop_leaves_peer_socket_open:
  "isConnected scenario_connected \<and>
   client scenario_connected = Some 1 \<and>
   readyState scenario_connected 1 = OPEN \<and>
   wss scenario_connected = Some 0 \<and>
   wss (stop scenario_connected) = None \<and>
   closed_servers (stop scenario_connected) = [0] \<and>
   client (stop scenario_connected) = None \<and>
   \<not> isConnected (stop scenario_connected) \<and>
   readyState (stop scenario_connected) 1 = OPEN \<and>
   readyState (handleConnection 2 scenario_connected) 1 = CLOSING"
  by (simp add: stop_eq scenario_connected_fields scenario_connected_fields [simplified]
      isConnected_def handleConnection_eq)

subsection \<open>The invariant is kept\<close>


lemma set_delete: "set (AList.delete k al) = {e \<in> set al. fst e \<noteq> k}"
  by (auto simp: AList.delete_eq)










lemma bridge_inv_cong:
  assumes "pendingCommands s = pendingCommands t" and "timers s = timers t"
    and "settled s = settled t" and "next_promise s = next_promise t"
    and "next_timer s = next_timer t"
  shows "bridge_inv s = bridge_inv t"
  using assms by (simp add: bridge_inv_def)


lemma Map_get_SomeD:
  assumes "Map_get m rid = Some pe"
  shows "\<exists>k. rid = Some (JStr k) \<and> map_of m k = Some pe"
  using assms by (cases "(m, rid)" rule: Map_get.cases) simp_all








subsection \<open>Every command is settled exactly once\<close>






subsection \<open>The timeout\<close>

text \<open>What an event may do to the correlation table and to the timers. An entry
  of the table after an event was there before it, or it is the entry the
  event's \<open>sendCommand\<close> registered, with the timer that call armed. Handles
  are never given out twice.\<close>

lemma set_update_subset: "set (AList.update k v al) \<subseteq> insert (k, v) (set al)"
  by (induction al) auto

lemma handleResponse_effect:
  "(pendingCommands (snd (handleResponse r st)) = pendingCommands st \<and>
    timers (snd (handleResponse r st)) = timers st) \<or>
   (\<exists>k pe. get_prop r ''id'' = Inr (Some (JStr k)) \<and>
      map_of (pendingCommands st) k = Some pe \<and>
      pendingCommands (snd (handleResponse r st)) = AList.delete k (pendingCommands st) \<and>
      timers (snd (handleResponse r st)) = (timers st)(timeout pe := None))"
proof (cases "get_prop r ''id''")
  case (Inl e)
  then show ?thesis
    by (simp add: handleResponse_def)
next
  case (Inr rid)
  show ?thesis
  proof (cases "Map_get (pendingCommands st) rid")
    case None
    show ?thesis
      by (simp add: handleResponse_unmatched [OF Inr None])
  next
    case (Some pe)
    from Map_get_SomeD [OF Some] obtain k where
      k: "rid = Some (JStr k)" "map_of (pendingCommands st) k = Some pe"
      by blast
    have "pendingCommands (snd (handleResponse r st)) = AList.delete k (pendingCommands st) \<and>
        timers (snd (handleResponse r st)) = (timers st)(timeout pe := None)"
      unfolding handleResponse_matched [OF Inr [unfolded k(1)] k(2)]
      by (simp add: settle_response_fields)
    with Inr k show ?thesis
      by blast
  qed
qed

lemma step_next_timer: "next_timer st \<le> next_timer (step parse e st)"
proof (cases e)
  case (EvMessage ws d)
  then show ?thesis
  proof (cases "parse d")
    case None
    with EvMessage show ?thesis
      by (simp add: on_message_def logger_call_def)
  next
    case (Some message)
    with EvMessage show ?thesis
      by (simp add: on_message_parsed [where parse = parse and d = d, OF Some]
          handleResponse_frame)
  qed
next
  case (EvTimeout h)
  then show ?thesis
    by (cases "timers st h") (simp_all add: fire_timer_def timeout_callback_def settle_def)
next
  case (EvSendCommand cmd now rnd ts)
  then show ?thesis
    by (cases "isConnected st") (simp_all add: sendCommand_connected, simp add: sendCommand_def)
next
  case EvStop
  then show ?thesis
    by (simp add: stop_eq)
qed (simp_all add: start_def on_listening_def on_server_error_def handleConnection_eq
    ws_close_def on_close_def on_error_def logger_call_def split: option.splits)

lemma step_entries:
  assumes "x \<in> set (pendingCommands (step parse e st))"
  shows "x \<in> set (pendingCommands st) \<or>
    (timeout (snd x) = next_timer st \<and> next_timer (step parse e st) = Suc (next_timer st))"
proof (cases e)
  case (EvMessage ws d)
  show ?thesis
  proof (cases "parse d")
    case None
    with EvMessage assms show ?thesis
      by (simp add: on_message_def logger_call_def)
  next
    case (Some message)
    from assms EvMessage
    have x: "x \<in> set (pendingCommands (snd (handleResponse message st)))"
      by (simp add: on_message_parsed [where parse = parse and d = d, OF Some])
    from handleResponse_effect [of message st] x show ?thesis
      by (auto simp: set_delete)
  qed
next
  case (EvTimeout h)
  with assms show ?thesis
    by (cases "timers st h")
       (auto simp: fire_timer_def timeout_callback_def settle_def set_delete)
next
  case (EvSendCommand cmd now rnd ts)
  show ?thesis
  proof (cases "isConnected st")
    case True
    from assms EvSendCommand
    have "x \<in> set (AList.update (generateId now rnd)
        \<lparr>resolve = next_promise st, reject = next_promise st, timeout = next_timer st\<rparr>
        (pendingCommands st))"
      by (simp add: sendCommand_connected [OF True])
    with set_update_subset have "x = (generateId now rnd,
        \<lparr>resolve = next_promise st, reject = next_promise st, timeout = next_timer st\<rparr>) \<or>
        x \<in> set (pendingCommands st)"
      by fastforce
    with EvSendCommand show ?thesis
      by (auto simp: sendCommand_connected [OF True])
  next
    case False
    with assms EvSendCommand show ?thesis
      by (simp add: sendCommand_def)
  qed
next
  case EvStop
  with assms show ?thesis
    by (simp add: stop_eq)
qed (use assms in \<open>simp_all add: start_def on_listening_def on_server_error_def
    handleConnection_eq ws_close_def on_close_def on_error_def logger_call_def
    split: if_splits option.splits\<close>)

text \<open>The timer of every entry of the table has been given out already.\<close>

lemma timeouts_below_step:
  assumes "\<forall>x \<in> set (pendingCommands st). timeout (snd x) < next_timer st"
  shows "\<forall>x \<in> set (pendingCommands (step parse e st)).
    timeout (snd x) < next_timer (step parse e st)"
proof
  fix x
  assume "x \<in> set (pendingCommands (step parse e st))"
  from step_entries [OF this] assms step_next_timer [of st parse e]
  show "timeout (snd x) < next_timer (step parse e st)"
    by (auto simp: less_le_trans)
qed

lemma timeouts_below_exec:
  assumes "exec parse evs st = Some st'"
    and "\<forall>x \<in> set (pendingCommands st). timeout (snd x) < next_timer st"
  shows "\<forall>x \<in> set (pendingCommands st'). timeout (snd x) < next_timer st'"
  using assms
proof (induction evs arbitrary: st)
  case Nil
  then show ?case by simp
next
  case (Cons e evs)
  from Cons.prems(1) have rest: "exec parse evs (step parse e st) = Some st'"
    by (simp split: if_splits)
  from Cons.IH [OF rest timeouts_below_step [OF Cons.prems(2)]] show ?case .
qed

text \<open>The armed timer of a command stays armed, with the callback it was armed
  with, across every event other than \<open>stop()\<close>, the firing of that timer, and
  a frame that parses to a response bearing the command's id.\<close>

lemma armed_for_step:
  assumes armed: "armed_for cid h tc st" and quiet: "leaves_armed parse cid h e"
  shows "armed_for cid h tc (step parse e st)"
proof -
  from armed have tm: "timers st h = Some tc" and below: "h < next_timer st"
    and own: "\<And>x. x \<in> set (pendingCommands st) \<Longrightarrow> timeout (snd x) = h \<Longrightarrow> fst x = cid"
    and olds: "\<forall>x \<in> set (pendingCommands st). timeout (snd x) < next_timer st"
    by (simp_all add: armed_for_def)
  have tm': "timers (step parse e st) h = Some tc"
  proof (cases e)
    case (EvMessage ws d)
    show ?thesis
    proof (cases "parse d")
      case None
      with EvMessage tm show ?thesis
        by (simp add: on_message_def logger_call_def)
    next
      case (Some message)
      from quiet EvMessage Some have other: "get_prop message ''id'' \<noteq> Inr (Some (JStr cid))"
        by simp
      have eq: "timers (step parse e st) = timers (snd (handleResponse message st))"
        using EvMessage by (simp add: on_message_parsed [where parse = parse and d = d, OF Some])
      from handleResponse_effect [of message st] show ?thesis
      proof
        assume "pendingCommands (snd (handleResponse message st)) = pendingCommands st \<and>
          timers (snd (handleResponse message st)) = timers st"
        with tm eq show ?thesis
          by simp
      next
        assume "\<exists>k pe. get_prop message ''id'' = Inr (Some (JStr k)) \<and>
          map_of (pendingCommands st) k = Some pe \<and>
          pendingCommands (snd (handleResponse message st)) =
            AList.delete k (pendingCommands st) \<and>
          timers (snd (handleResponse message st)) = (timers st)(timeout pe := None)"
        then obtain k pe where k: "get_prop message ''id'' = Inr (Some (JStr k))"
          and pe: "map_of (pendingCommands st) k = Some pe"
          and t: "timers (snd (handleResponse message st)) = (timers st)(timeout pe := None)"
          by blast
        from k other have "k \<noteq> cid"
          by auto
        moreover from pe have "(k, pe) \<in> set (pendingCommands st)"
          by (rule map_of_SomeD)
        ultimately have "timeout pe \<noteq> h"
          using own [of "(k, pe)"] by auto
        with tm eq t show ?thesis
          by simp
      qed
    qed
  next
    case (EvTimeout h')
    with quiet have "h' \<noteq> h"
      by simp
    with EvTimeout tm show ?thesis
      by (cases "timers st h'") (simp_all add: fire_timer_def timeout_callback_def settle_def)
  next
    case (EvSendCommand cmd now rnd ts)
    show ?thesis
    proof (cases "isConnected st")
      case True
      with EvSendCommand tm below show ?thesis
        by (simp add: sendCommand_connected)
    next
      case False
      with EvSendCommand tm show ?thesis
        by (simp add: sendCommand_def)
    qed
  next
    case EvStop
    with quiet show ?thesis
      by simp
  qed (use tm in \<open>simp_all add: start_def on_listening_def on_server_error_def
      handleConnection_eq ws_close_def on_close_def on_error_def logger_call_def
      split: option.splits\<close>)
  from below step_next_timer [of st parse e] have below': "h < next_timer (step parse e st)"
    by simp
  have "timeout (snd x) < next_timer (step parse e st) \<and> (timeout (snd x) = h \<longrightarrow> fst x = cid)"
    if "x \<in> set (pendingCommands (step parse e st))" for x
    using step_entries [OF that] timeouts_below_step [OF olds, of parse e] that own [of x] below
    by auto
  with tm' below' show ?thesis
    by (simp add: armed_for_def)
qed

lemma armed_for_exec:
  assumes "exec parse evs st = Some st'" and "armed_for cid h tc st"
    and "list_all (leaves_armed parse cid h) evs"
  shows "armed_for cid h tc st'"
  using assms
proof (induction evs arbitrary: st)
  case Nil
  then show ?case by simp
next
  case (Cons e evs)
  from Cons.prems have rest: "exec parse evs (step parse e st) = Some st'"
    and q: "leaves_armed parse cid h e" and qs: "list_all (leaves_armed parse cid h) evs"
    by (simp_all split: if_splits)
  from Cons.IH [OF rest armed_for_step [OF Cons.prems(2) q] qs] show ?case .
qed

lemma armed_for_send:
  assumes conn: "isConnected st"
    and olds: "\<forall>x \<in> set (pendingCommands st). timeout (snd x) < next_timer st"
  shows "armed_for (generateId now rnd) (next_timer st)
     \<lparr>t_id = generateId now rnd, t_type = c_type cmd, t_reject = next_promise st,
      t_due = clock st + 30000\<rparr>
     (snd (sendCommand cmd now rnd ts st))"
proof -
  have "timeout (snd x) < Suc (next_timer st) \<and>
      (timeout (snd x) = next_timer st \<longrightarrow> fst x = generateId now rnd)"
    if "x \<in> set (AList.update (generateId now rnd)
        \<lparr>resolve = next_promise st, reject = next_promise st, timeout = next_timer st\<rparr>
        (pendingCommands st))" for x
  proof -
    from that set_update_subset have "x = (generateId now rnd,
        \<lparr>resolve = next_promise st, reject = next_promise st, timeout = next_timer st\<rparr>) \<or>
        x \<in> set (pendingCommands st)"
      by fastforce
    with olds show ?thesis
      by auto
  qed
  then show ?thesis
    by (simp add: armed_for_def sendCommand_connected [OF conn])
qed

text \<open>
  C3, as the code has it. Take a bridge reached by an execution from a new
  bridge and a command sent on it while a peer is connected. The call arms a
  timer that is due 30000 ms after the call, whatever the command (the window
  is the constant \<open>COMMAND_TIMEOUT_MS\<close>), and registers its entry under the
  generated id. After every continuation in which no frame parses to a
  response bearing that id, \<open>stop()\<close> is not called and the timer has not fired
  (\<open>leaves_armed\<close>), the timer is still armed as the call armed it: it can fire
  exactly when the clock has reached the due time, and when it fires it
  removes the entry of that id from the correlation table and rejects the
  caller's promise with a \<open>PluginTimeoutError\<close> whose message is
  \<open>Plugin command '<type>' timed out after 30000ms\<close>.
\<close>

theorem C3_timeout_rejects:
  assumes reach: "exec parse evs0 (new_PluginBridge prt) = Some st"
    and conn: "isConnected st"
    and later: "exec parse evs (snd (sendCommand cmd now rnd ts st)) = Some s"
    and quiet: "list_all (leaves_armed parse (generateId now rnd) (next_timer st)) evs"
  shows "fst (sendCommand cmd now rnd ts st) = Inr (next_promise st) \<and>
    (let st' = snd (sendCommand cmd now rnd ts st);
         h = next_timer st;
         cid = generateId now rnd
     in timers st' h =
          Some \<lparr>t_id = cid, t_type = c_type cmd, t_reject = next_promise st,
                t_due = clock st + 30000\<rparr> \<and>
        map_of (pendingCommands st') cid =
          Some \<lparr>resolve = next_promise st, reject = next_promise st, timeout = h\<rparr> \<and>
        timers s h = timers st' h \<and>
        enabled s (EvTimeout h) = (clock st + 30000 \<le> clock s) \<and>
        pendingCommands (step parse (EvTimeout h) s) = AList.delete cid (pendingCommands s) \<and>
        map_of (pendingCommands (step parse (EvTimeout h) s)) cid = None \<and>
        timers (step parse (EvTimeout h) s) h = None \<and>
        settled (step parse (EvTimeout h) s) =
          settled s @
            [(next_promise st, Rejected (PluginTimeoutError (c_type cmd) COMMAND_TIMEOUT_MS))]) \<and>
    COMMAND_TIMEOUT_MS = 30000 \<and>
    error_message (PluginTimeoutError (c_type cmd) COMMAND_TIMEOUT_MS) =
      Some (''Plugin command '' @ [CHR 0x27] @ c_type cmd @ [CHR 0x27] @
            '' timed out after 30000ms'')"
proof -
  let ?st' = "snd (sendCommand cmd now rnd ts st)"
  let ?h = "next_timer st"
  let ?cid = "generateId now rnd"
  let ?tc = "\<lparr>t_id = ?cid, t_type = c_type cmd, t_reject = next_promise st,
               t_due = clock st + 30000\<rparr>"
  have res: "fst (sendCommand cmd now rnd ts st) = Inr (next_promise st)"
    by (simp add: sendCommand_connected [OF conn])
  have tm: "timers ?st' ?h = Some ?tc"
    by (simp add: sendCommand_connected [OF conn])
  have tb: "map_of (pendingCommands ?st') ?cid =
      Some \<lparr>resolve = next_promise st, reject = next_promise st, timeout = ?h\<rparr>"
    by (simp add: sendCommand_connected [OF conn] update_conv')
  have olds: "\<forall>x \<in> set (pendingCommands st). timeout (snd x) < next_timer st"
    by (rule timeouts_below_exec [OF reach]) (simp add: new_PluginBridge_def)
  have "armed_for ?cid ?h ?tc s"
    by (rule armed_for_exec [OF later armed_for_send [OF conn olds] quiet])
  then have armed: "timers s ?h = Some ?tc"
    by (simp add: armed_for_def)
  have fire: "enabled s (EvTimeout ?h) = (clock st + 30000 \<le> clock s) \<and>
      pendingCommands (step parse (EvTimeout ?h) s) = AList.delete ?cid (pendingCommands s) \<and>
      map_of (pendingCommands (step parse (EvTimeout ?h) s)) ?cid = None \<and>
      timers (step parse (EvTimeout ?h) s) ?h = None \<and>
      settled (step parse (EvTimeout ?h) s) =
        settled s @
          [(next_promise st, Rejected (PluginTimeoutError (c_type cmd) COMMAND_TIMEOUT_MS))]"
    by (simp add: armed fire_timer_armed [OF armed] delete_conv')
  have msg: "error_message (PluginTimeoutError (c_type cmd) COMMAND_TIMEOUT_MS) =
      Some (''Plugin command '' @ [CHR 0x27] @ c_type cmd @ [CHR 0x27] @
            '' timed out after 30000ms'')"
    by (simp add: PluginTimeoutError_eq)
  show ?thesis
    unfolding Let_def using res tm tb armed fire msg
    by (simp only: COMMAND_TIMEOUT_MS_def) (simp add: delete_conv')
qed

lemma scenario_quiet_fields:
  "exec scenario_parse connect_trace (new_PluginBridge 9001) = Some scenario_connected"
  "exec scenario_parse quiet_trace
     (snd (sendCommand DELETE_NODE 1000 ''bbbbbbb'' 1000 scenario_connected)) =
   Some (fold (step scenario_parse) quiet_trace
     (snd (sendCommand DELETE_NODE 1000 ''bbbbbbb'' 1000 scenario_connected)))"
  "list_all (leaves_armed scenario_parse (generateId 1000 ''bbbbbbb'')
     (next_timer scenario_connected)) quiet_trace"
  "pendingCommands (fold (step scenario_parse) quiet_trace
     (snd (sendCommand DELETE_NODE 1000 ''bbbbbbb'' 1000 scenario_connected))) =
   [(''1000-bbbbbbb'', \<lparr>resolve = 0, reject = 0, timeout = 0\<rparr>)]"
  "settled (fold (step scenario_parse) quiet_trace
     (snd (sendCommand DELETE_NODE 1000 ''bbbbbbb'' 1000 scenario_connected))) =
   [(1, Resolved (JObj [(''nodeId'', JStr ''1:23'')]))]"
  "clock (fold (step scenario_parse) quiet_trace
     (snd (sendCommand DELETE_NODE 1000 ''bbbbbbb'' 1000 scenario_connected))) = 30000"
  by (simp_all add: connect_trace_def quiet_trace_def scenario_connected_def scenario_parse_def
      bridge_defs reply_A_def CREATE_FRAME_def DELETE_NODE_def)

theorem C3_timeout_rejects_witness:
  "exec scenario_parse connect_trace (new_PluginBridge 9001) = Some scenario_connected \<and>
   isConnected scenario_connected \<and>
   list_all (leaves_armed scenario_parse ''1000-bbbbbbb'' 0) quiet_trace \<and>
   (let st' = step scenario_parse (EvSendCommand DELETE_NODE 1000 ''bbbbbbb'' 1000)
                scenario_connected;
        late = fold (step scenario_parse) quiet_trace st';
        fired = step scenario_parse (EvTimeout 0) late
    in exec scenario_parse quiet_trace st' = Some late \<and>
       pendingCommands st' = [(''1000-bbbbbbb'', \<lparr>resolve = 0, reject = 0, timeout = 0\<rparr>)] \<and>
       \<not> enabled st' (EvTimeout 0) \<and>
       pendingCommands late = [(''1000-bbbbbbb'', \<lparr>resolve = 0, reject = 0, timeout = 0\<rparr>)] \<and>
       enabled late (EvTimeout 0) \<and>
       pendingCommands fired = [] \<and>
       timers fired 0 = None \<and>
       settled fired =
         [(1, Resolved (JObj [(''nodeId'', JStr ''1:23'')])),
          (0, Rejected (FigmadError ''PluginTimeoutError''
                 (''Plugin command '' @ [CHR 0x27] @ ''DELETE_NODE'' @ [CHR 0x27] @
                  '' timed out after 30000ms'')
                 ''PLUGIN_BRIDGE_ERROR''))])"
proof -
  have h: "isConnected scenario_connected"
    by (rule scenario_connected_fields)
  let ?st' = "snd (sendCommand DELETE_NODE 1000 ''bbbbbbb'' 1000 scenario_connected)"
  note c3 = C3_timeout_rejects [OF scenario_quiet_fields(1) h scenario_quiet_fields(2)
      scenario_quiet_fields(3), unfolded Let_def]
  have flds: "pendingCommands ?st' = [(''1000-bbbbbbb'', \<lparr>resolve = 0, reject = 0, timeout = 0\<rparr>)]"
    "clock ?st' = 0" "settled ?st' = []"
    "timers ?st' 0 = Some \<lparr>t_id = ''1000-bbbbbbb'', t_type = ''DELETE_NODE'', t_reject = 0,
       t_due = 30000\<rparr>"
    by (simp_all add: sendCommand_connected [OF h] scenario_connected_fields generateId_def
        digit_char_def DELETE_NODE_def)
  from c3 show ?thesis
    using h flds scenario_quiet_fields
    by (simp add: Let_def scenario_connected_fields PluginTimeoutError_eq DELETE_NODE_def
        generateId_def digit_char_def)
qed

text \<open>The claim as worded, "a command that receives no matching response in
  the window is rejected with a timeout error", leaves \<open>stop()\<close> out. On the
  bridge on which B alone has been sent, no frame arrives, the bridge is
  stopped after 1000 ms, and the window passes: the promise of B has been
  rejected with the error of \<open>stop()\<close>, the timer is cleared and can no longer
  fire, and no timeout error is ever given.\<close>

theorem C3_stopped_counterexample:
  "isConnected scenario_connected \<and>
   list_all (\<lambda>e. case e of EvMessage ws d \<Rightarrow> False | _ \<Rightarrow> True) stopped_trace \<and>
   (let st' = step scenario_parse (EvSendCommand DELETE_NODE 1000 ''bbbbbbb'' 1000)
                scenario_connected;
        late = fold (step scenario_parse) stopped_trace st'
    in exec scenario_parse stopped_trace st' = Some late \<and>
       timers st' 0 =
         Some \<lparr>t_id = ''1000-bbbbbbb'', t_type = ''DELETE_NODE'', t_reject = 0, t_due = 30000\<rparr> \<and>
       clock late = 30000 \<and>
       timers late 0 = None \<and>
       \<not> enabled late (EvTimeout 0) \<and>
       pendingCommands late = [] \<and>
       settled late = [(0, Rejected (Error (JStr ''Plugin bridge stopped'')))] \<and>
       settled (step scenario_parse (EvTimeout 0) late) = settled late)"
  by (simp add: stopped_trace_def scenario_connected_def scenario_parse_def bridge_defs stop_eq
      DELETE_NODE_def)

end
